theory Spec2Isabelle
  imports Complex_Main
begin

section \<open>The dependency container (src/lunas/di/service.ts)\<close>

text \<open>
  The container holds values of TypeScript's type \<open>any\<close>. Only their truthiness matters
  to \<open>Service.get\<close> and \<open>Service.remove\<close>, so a value is one of the JavaScript
  primitives or a reference to an object. An object is an object of the host program,
  known by a number, or one of the language's own objects, known by its name.
  \<open>JNumber\<close> is a finite number (\<open>+0\<close> and \<open>-0\<close> are both \<open>JNumber 0\<close>), \<open>JInfinity\<close>
  carries its sign.
\<close>

datatype object = Host nat | Builtin string

datatype js_value =
    JUndefined
  | JNull
  | JBoolean bool
  | JNumber real
  | JNaN
  | JInfinity bool
  | JString string
  | JBigInt int
  | JSymbol string
  | JObject object

text \<open>JavaScript's truthiness (the abstract operation ToBoolean), which \<open>!service\<close> negates.\<close>

fun ToBoolean :: "js_value \<Rightarrow> bool" where
  "ToBoolean JUndefined = False"
| "ToBoolean JNull = False"
| "ToBoolean (JBoolean b) = b"
| "ToBoolean (JNumber x) = (x \<noteq> 0)"
| "ToBoolean JNaN = False"
| "ToBoolean (JInfinity s) = True"
| "ToBoolean (JString s) = (s \<noteq> [])"
| "ToBoolean (JBigInt i) = (i \<noteq> 0)"
| "ToBoolean (JSymbol s) = True"
| "ToBoolean (JObject r) = True"

datatype error = Error string

subsection \<open>The object that is the container\<close>

text \<open>
  \<open>CONTAINER: Record<string, any> = {}\<close> is an ordinary object: it has its own entries,
  and it inherits from its prototype, which is \<open>Object.prototype\<close> to begin with. What a
  lookup of a name finds in a prototype is a \<open>slot\<close>: nothing, a data member with its
  value, or the accessor \<open>__proto__\<close> of \<open>Object.prototype\<close>, whose getter returns the
  prototype of the object that is read and whose setter replaces it.
\<close>

datatype slot = Missing | Data js_value | Proto_accessor

record container =
  own :: "string \<rightharpoonup> js_value"
  proto :: "object option"

definition Object_prototype :: object where
  "Object_prototype = Builtin ''Object.prototype''"

text \<open>The initial value \<open>{}\<close> of \<open>CONTAINER\<close>.\<close>

definition empty_object :: container where
  "empty_object = \<lparr>own = Map.empty, proto = Some Object_prototype\<rparr>"

text \<open>The function members of \<open>Object.prototype\<close>; each is an object of the language.\<close>

definition object_prototype_functions :: "string list" where
  "object_prototype_functions =
     [''constructor'', ''hasOwnProperty'', ''isPrototypeOf'', ''propertyIsEnumerable'',
      ''toLocaleString'', ''toString'', ''valueOf'', ''__defineGetter__'', ''__defineSetter__'',
      ''__lookupGetter__'', ''__lookupSetter__'']"

definition object_prototype_slot :: "string \<Rightarrow> slot" where
  "object_prototype_slot name =
     (if name = ''__proto__'' then Proto_accessor
      else if name \<in> set object_prototype_functions
      then Data (JObject (Builtin (''Object.prototype.'' @ name)))
      else Missing)"

text \<open>
  The members of every other object are those of the host program: \<open>heap r name\<close> is
  what a lookup of \<open>name\<close> that starts at the object \<open>r\<close> finds, in \<open>r\<close> or further up
  its chain. The objects of the host program are plain: their data members can be
  assigned, the only accessor they inherit is \<open>__proto__\<close>, and none of them is the
  container, which is private to \<open>Service\<close>, or inherits from it.
\<close>

type_synonym members = "object \<Rightarrow> string \<Rightarrow> slot"

definition slot_of :: "members \<Rightarrow> object \<Rightarrow> string \<Rightarrow> slot" where
  "slot_of heap r name =
     (if r = Object_prototype then object_prototype_slot name else heap r name)"

text \<open>What the container inherits under a name.\<close>

definition inherited :: "members \<Rightarrow> container \<Rightarrow> string \<Rightarrow> slot" where
  "inherited heap CONTAINER name =
     (case proto CONTAINER of None \<Rightarrow> Missing | Some r \<Rightarrow> slot_of heap r name)"

text \<open>
  The read \<open>CONTAINER[name]\<close>: the own entry if there is one, otherwise what is
  inherited, otherwise \<open>undefined\<close>.
\<close>

definition property :: "members \<Rightarrow> container \<Rightarrow> string \<Rightarrow> js_value" where
  "property heap CONTAINER name =
     (case own CONTAINER name of
        Some v \<Rightarrow> v
      | None \<Rightarrow>
          (case inherited heap CONTAINER name of
             Missing \<Rightarrow> JUndefined
           | Data v \<Rightarrow> v
           | Proto_accessor \<Rightarrow>
               (case proto CONTAINER of None \<Rightarrow> JUndefined | Some r \<Rightarrow> JObject r)))"

definition define_own :: "container \<Rightarrow> string \<Rightarrow> js_value \<Rightarrow> container" where
  "define_own CONTAINER name v = CONTAINER\<lparr>own := (own CONTAINER)(name \<mapsto> v)\<rparr>"

text \<open>
  The setter of \<open>__proto__\<close>: an object or \<open>null\<close> becomes the prototype, any other value
  is ignored.
\<close>

fun set_prototype :: "container \<Rightarrow> js_value \<Rightarrow> container" where
  "set_prototype CONTAINER (JObject r) = CONTAINER\<lparr>proto := Some r\<rparr>"
| "set_prototype CONTAINER JNull = CONTAINER\<lparr>proto := None\<rparr>"
| "set_prototype CONTAINER v = CONTAINER"

text \<open>
  The assignment \<open>CONTAINER[name] = v\<close>: an own entry is overwritten; otherwise an
  inherited accessor takes the value and no entry is stored; otherwise a new own entry is
  stored.
\<close>

definition assign :: "members \<Rightarrow> container \<Rightarrow> string \<Rightarrow> js_value \<Rightarrow> container" where
  "assign heap CONTAINER name v =
     (case own CONTAINER name of
        Some old \<Rightarrow> define_own CONTAINER name v
      | None \<Rightarrow>
          (case inherited heap CONTAINER name of
             Proto_accessor \<Rightarrow> set_prototype CONTAINER v
           | Data inherited_value \<Rightarrow> define_own CONTAINER name v
           | Missing \<Rightarrow> define_own CONTAINER name v))"

subsection \<open>The methods of Service\<close>

definition Service_get :: "members \<Rightarrow> container \<Rightarrow> string \<Rightarrow> error + js_value" where
  "Service_get heap CONTAINER name =
     (let service = property heap CONTAINER name
      in if \<not> ToBoolean service
         then Inl (Error (''Error: Service '' @ [CHR 0x22] @ name @ [CHR 0x22] @ '' does not exist.''))
         else Inr service)"

definition Service_add :: "members \<Rightarrow> container \<Rightarrow> string \<Rightarrow> js_value \<Rightarrow> container" where
  "Service_add heap CONTAINER name service = assign heap CONTAINER name service"

text \<open>\<open>delete\<close> removes an own entry and nothing else.\<close>

definition Service_remove :: "members \<Rightarrow> container \<Rightarrow> string \<Rightarrow> container" where
  "Service_remove heap CONTAINER name =
     (if ToBoolean (property heap CONTAINER name)
      then CONTAINER\<lparr>own := (own CONTAINER)(name := None)\<rparr>
      else CONTAINER)"

definition Service_clear :: "container \<Rightarrow> container" where
  "Service_clear CONTAINER = CONTAINER\<lparr>own := Map.empty\<rparr>"

section \<open>The game class (src/lunas/game.ts)\<close>

subsection \<open>The host: document, clock and frame scheduler\<close>

text \<open>
  A canvas element answers \<open>getContext\<close> with a rendering context or with \<open>null\<close>.
  A context is known by a number.
\<close>

record canvas =
  webgl2 :: "nat option"
  webgl :: "nat option"

definition getContext :: "canvas \<Rightarrow> string \<Rightarrow> nat option" where
  "getContext c contextId =
     (if contextId = ''webgl2'' then webgl2 c
      else if contextId = ''webgl'' then webgl c
      else None)"

text \<open>
  The two arrow functions the class hands to \<open>requestAnimationFrame\<close>: the one of the
  constructor, which sets \<open>lastFrameTime\<close> and calls \<open>loop\<close>, and the one of \<open>loop\<close>,
  which calls \<open>loop\<close>.
\<close>

datatype frame = StartFrame | LoopFrame

text \<open>
  The host of one game: \<open>document\<close> maps an id to the canvas element that has it,
  \<open>clock n\<close> is what the \<open>n\<close>-th call of \<open>performance.now()\<close> returns (milliseconds),
  \<open>reads\<close> counts the calls made so far, and \<open>frames\<close> holds the callbacks registered
  with \<open>requestAnimationFrame\<close> that have not run yet, oldest first. Times are JavaScript
  numbers; they are modelled as reals, so the subtraction and the division by 1000 of
  \<open>loop\<close> are exact.
\<close>

record host =
  document :: "string \<rightharpoonup> canvas"
  clock :: "nat \<Rightarrow> real"
  reads :: nat
  frames :: "frame list"

definition performance_now :: "host \<Rightarrow> real \<times> host" where
  "performance_now h = (clock h (reads h), h\<lparr>reads := Suc (reads h)\<rparr>)"

definition requestAnimationFrame :: "frame \<Rightarrow> host \<Rightarrow> host" where
  "requestAnimationFrame f h = h\<lparr>frames := frames h @ [f]\<rparr>"

subsection \<open>The game and its callbacks\<close>

text \<open>The keys of \<open>GameCallback\<close>.\<close>

datatype kind = Update | Draw | OnFocus | OnBlur | OnResize

text \<open>
  A callback is a function value; \<open>indexOf\<close> compares function values by identity, which
  is equality on the type \<open>'cb\<close> of callback identities.
\<close>

record 'cb Game =
  lastFrameTime :: real
  gl :: nat
  callbacks :: "kind \<Rightarrow> 'cb list"

definition getGLContext :: "canvas \<Rightarrow> error + nat" where
  "getGLContext c =
     (case getContext c ''webgl2'' of
        Some ctx \<Rightarrow> Inr ctx
      | None \<Rightarrow>
          (case getContext c ''webgl'' of
             Some ctx \<Rightarrow> Inr ctx
           | None \<Rightarrow> Inl (Error ''Unable to initialize WebGL context.'')))"

definition canvas_not_found :: string where
  "canvas_not_found =
     ''Canvas element with id '' @ [CHR 0x22] @ ''lunasCanvas'' @ [CHR 0x22] @ '' not found''"

text \<open>
  Modelled from the spec: the field initialiser of \<open>callbacks\<close> is not part of the excerpt.
  The spec's registry is created empty when the game is constructed.
\<close>

definition initial_callbacks :: "kind \<Rightarrow> 'cb list" where
  "initial_callbacks k = []"

text \<open>
  The constructor either throws, and then nothing of the host has changed and there is no
  game, or it returns the game and has registered the first frame callback. It does not
  read the clock: \<open>lastFrameTime\<close> starts at its field initialiser \<open>0\<close>. The cast
  \<open>as HTMLCanvasElement\<close> checks nothing at run time, so the document maps an id to a
  canvas.
\<close>

definition constructor :: "host \<Rightarrow> (error + 'cb Game) \<times> host" where
  "constructor h =
     (case document h ''lunasCanvas'' of
        None \<Rightarrow> (Inl (Error canvas_not_found), h)
      | Some c \<Rightarrow>
          (case getGLContext c of
             Inl e \<Rightarrow> (Inl e, h)
           | Inr ctx \<Rightarrow>
               (Inr \<lparr>lastFrameTime = 0, gl = ctx, callbacks = initial_callbacks\<rparr>,
                requestAnimationFrame StartFrame h)))"

definition addCallback :: "kind \<Rightarrow> 'cb \<Rightarrow> 'cb Game \<Rightarrow> 'cb Game" where
  "addCallback type callback g =
     g\<lparr>callbacks := (callbacks g)(type := callbacks g type @ [callback])\<rparr>"

text \<open>\<open>Array.prototype.indexOf\<close>: the first index holding the element, \<open>-1\<close> if none does.\<close>

fun indexOf :: "'a list \<Rightarrow> 'a \<Rightarrow> int" where
  "indexOf [] x = - 1"
| "indexOf (y # ys) x =
     (if y = x then 0
      else (let i = indexOf ys x in if i = - 1 then - 1 else i + 1))"

text \<open>
  \<open>Array.prototype.splice(start, deleteCount)\<close> with no items to insert, giving the array
  as it is left. A negative \<open>start\<close> counts from the end.
\<close>

definition array_splice :: "'a list \<Rightarrow> int \<Rightarrow> nat \<Rightarrow> 'a list" where
  "array_splice xs start deleteCount =
     (let len = int (length xs);
          s = (if start < 0 then max (len + start) 0 else min start len)
      in take (nat s) xs @ drop (nat s + deleteCount) xs)"

definition removeCallback :: "kind \<Rightarrow> 'cb \<Rightarrow> 'cb Game \<Rightarrow> 'cb Game" where
  "removeCallback type callback g =
     (let index = indexOf (callbacks g type) callback
      in if index \<noteq> - 1
         then g\<lparr>callbacks := (callbacks g)(type := array_splice (callbacks g type) index 1)\<rparr>
         else g)"

subsection \<open>The loop\<close>

text \<open>
  What a run of the game does, in the order it does it: the calls \<open>this.update(dt)\<close> and
  \<open>this.draw()\<close> of \<open>loop\<close>, the two calls on the rendering context in \<open>draw\<close>, each
  invocation of a subscriber with its arguments, and each report of a subscriber's
  failure.
\<close>

datatype 'cb effect =
    Call_update real
  | Call_draw
  | ClearColor real real real real
  | Clear
  | Invoked kind 'cb "real list"
  | Reported kind 'cb

text \<open>The body of \<open>update\<close> is empty: it does nothing with \<open>_dt\<close> and invokes nobody.\<close>

definition update :: "real \<Rightarrow> 'cb Game \<Rightarrow> 'cb effect list \<times> 'cb Game" where
  "update dt g = ([], g)"

text \<open>\<open>draw\<close> clears the screen with \<open>clearColor(0, 0, 0, 1)\<close> and \<open>clear(COLOR_BUFFER_BIT)\<close>.\<close>

definition draw :: "'cb Game \<Rightarrow> 'cb effect list \<times> 'cb Game" where
  "draw g = ([ClearColor 0 0 0 1, Clear], g)"

text \<open>
  One run of \<open>loop\<close>: it reads the clock, passes \<open>dt\<close> to \<open>update\<close>, calls \<open>draw\<close> and
  registers itself for the next frame. It has no exception handler and tests no flag.
\<close>

definition loop :: "'cb Game \<times> host \<Rightarrow> 'cb effect list \<times> ('cb Game \<times> host)" where
  "loop s =
     (case s of (g, h) \<Rightarrow>
      (case performance_now h of (now, h1) \<Rightarrow>
        (let timePassed = now - lastFrameTime g;
             g1 = g\<lparr>lastFrameTime := now\<rparr>;
             dt = timePassed / 1000
         in (case update dt g1 of (us, g2) \<Rightarrow>
             (case draw g2 of (ds, g3) \<Rightarrow>
               (Call_update dt # us @ Call_draw # ds,
                (g3, requestAnimationFrame LoopFrame h1)))))))"

fun frame_callback :: "frame \<Rightarrow> 'cb Game \<times> host \<Rightarrow> 'cb effect list \<times> ('cb Game \<times> host)" where
  "frame_callback StartFrame (g, h) =
     (case performance_now h of (now, h1) \<Rightarrow> loop (g\<lparr>lastFrameTime := now\<rparr>, h1))"
| "frame_callback LoopFrame (g, h) = loop (g, h)"

text \<open>
  One animation frame of the browser: the callbacks registered before the frame run in
  order; what they register is left for the next frame.
\<close>

fun run_callbacks ::
  "frame list \<Rightarrow> 'cb Game \<times> host \<Rightarrow> 'cb effect list \<times> ('cb Game \<times> host)" where
  "run_callbacks [] s = ([], s)"
| "run_callbacks (f # fs) s =
     (case frame_callback f s of
        (es, s1) \<Rightarrow> (case run_callbacks fs s1 of (es', s2) \<Rightarrow> (es @ es', s2)))"

definition animation_frame :: "'cb Game \<times> host \<Rightarrow> 'cb effect list \<times> ('cb Game \<times> host)" where
  "animation_frame s =
     (case s of (g, h) \<Rightarrow> run_callbacks (frames h) (g, h\<lparr>frames := []\<rparr>))"

text \<open>
  Host code runs between the animation frames and can call the public methods of the
  game, \<open>addCallback\<close> and \<open>removeCallback\<close>.
\<close>

datatype 'cb call = AddCallback kind 'cb | RemoveCallback kind 'cb

fun perform :: "'cb call \<Rightarrow> 'cb Game \<Rightarrow> 'cb Game" where
  "perform (AddCallback k cb) g = addCallback k cb g"
| "perform (RemoveCallback k cb) g = removeCallback k cb g"

text \<open>
  A run of as many animation frames as \<open>css\<close> has elements; the host code makes the calls
  of the \<open>i\<close>-th element before the \<open>i\<close>-th frame.
\<close>

fun run_frames ::
  "'cb call list list \<Rightarrow> 'cb Game \<times> host \<Rightarrow> 'cb effect list \<times> ('cb Game \<times> host)" where
  "run_frames [] s = ([], s)"
| "run_frames (cs # css) s =
     (case animation_frame (fold perform cs (fst s), snd s) of
        (es, s1) \<Rightarrow> (case run_frames css s1 of (es', s2) \<Rightarrow> (es @ es', s2)))"

subsection \<open>Subscribers and dispatch\<close>

text \<open>
  A subscriber is host code. When it is invoked it may call the public methods of the
  game, and it returns or raises. \<open>calls\<close> lists the calls it made, in order, and
  \<open>raises\<close> says how the invocation ended.
\<close>

record 'cb reaction =
  calls :: "'cb call list"
  raises :: bool

type_synonym 'cb behaviour = "'cb \<Rightarrow> real list \<Rightarrow> 'cb reaction"

text \<open>
  Modelled from the spec: no code of the sources invokes a subscriber (\<open>update\<close> and
  \<open>draw\<close> invoke nobody), so the code that calls the subscribers of a kind is missing.
  The spec's \<open>dispatch\<close> invokes every subscriber of a snapshot of the sequence in
  insertion order with the same arguments; a subscriber's failure is isolated and
  reported, and the pass goes on with the next subscriber. \<open>invoke_all\<close> is the pass over
  the snapshot. It returns to its caller in every case.
\<close>

fun invoke_all ::
  "'cb behaviour \<Rightarrow> kind \<Rightarrow> real list \<Rightarrow> 'cb list \<Rightarrow> 'cb Game \<Rightarrow> 'cb effect list \<times> 'cb Game" where
  "invoke_all behave k args [] g = ([], g)"
| "invoke_all behave k args (cb # rest) g =
     (let r = behave cb args;
          g' = fold perform (calls r) g
      in (case invoke_all behave k args rest g' of
            (es, g'') \<Rightarrow>
              (Invoked k cb args # (if raises r then [Reported k cb] else []) @ es, g'')))"

text \<open>
  Modelled from the spec: \<open>dispatch\<close>, which the sources do not have, takes its snapshot
  of the sequence of the kind when it starts.
\<close>

definition dispatch ::
  "'cb behaviour \<Rightarrow> kind \<Rightarrow> real list \<Rightarrow> 'cb Game \<Rightarrow> 'cb effect list \<times> 'cb Game" where
  "dispatch behave k args g = invoke_all behave k args (callbacks g k) g"

subsection \<open>Reading a run\<close>

text \<open>The effects of a pass over the subscribers \<open>cbs\<close> that invokes each of them.\<close>

definition pass_effects :: "'cb behaviour \<Rightarrow> kind \<Rightarrow> real list \<Rightarrow> 'cb list \<Rightarrow> 'cb effect list" where
  "pass_effects behave k args cbs =
     concat (map (\<lambda>cb. Invoked k cb args # (if raises (behave cb args) then [Reported k cb] else []))
       cbs)"

text \<open>The subscribers of a kind that a run invoked, in the order of their invocations.\<close>

fun invoked :: "kind \<Rightarrow> 'cb effect list \<Rightarrow> 'cb list" where
  "invoked k [] = []"
| "invoked k (Invoked k' cb args # es) = (if k' = k then cb # invoked k es else invoked k es)"
| "invoked k (e # es) = invoked k es"

text \<open>The delta times that a run passed to \<open>update\<close>, one for each tick.\<close>

fun deltas :: "'cb effect list \<Rightarrow> real list" where
  "deltas [] = []"
| "deltas (Call_update dt # es) = dt # deltas es"
| "deltas (e # es) = deltas es"





subsection \<open>Games, hosts and subscribers for the examples\<close>

definition blank_game :: "nat Game" where
  "blank_game = \<lparr>lastFrameTime = 0, gl = 1, callbacks = (\<lambda>k. [])\<rparr>"

text \<open>Subscribers that call nothing and return.\<close>

definition quiet :: "nat behaviour" where
  "quiet cb args = \<lparr>calls = [], raises = False\<rparr>"


text \<open>
  A page that has the canvas \<open>lunasCanvas\<close>, with a WebGL2 context, and whose clock is
  \<open>c\<close>; and a page that has no canvas.
\<close>

definition page :: "(nat \<Rightarrow> real) \<Rightarrow> host" where
  "page c = \<lparr>document = [''lunasCanvas'' \<mapsto> \<lparr>webgl2 = Some 1, webgl = None\<rparr>],
             clock = c, reads = 0, frames = []\<rparr>"

definition bare_page :: host where
  "bare_page = \<lparr>document = Map.empty, clock = (\<lambda>n. 16 * real n), reads = 0, frames = []\<rparr>"

text \<open>A host program whose objects have no members.\<close>

definition no_members :: members where
  "no_members r name = Missing"

section \<open>Properties of the dependency container\<close>

text \<open>
  C10, as the code has it. \<open>Service.get name\<close> throws the error
  \<^verbatim>\<open>Error: Service "<name>" does not exist.\<close> exactly when the read \<open>CONTAINER[name]\<close> is
  falsy, and returns what it read otherwise. When a value is stored under \<open>name\<close> the read
  is that value. For a name under which the container inherits nothing, \<open>get\<close> throws
  exactly when the stored value is falsy or nothing is stored. After \<open>Service.add name v\<close>
  with a falsy \<open>v\<close> (such as \<open>0\<close>, the empty string, \<open>false\<close> or \<open>null\<close>), for every name
  that has an entry already or is not an inherited accessor, the container has the entry
  \<open>v\<close> for \<open>name\<close> and \<open>Service.get name\<close> throws all the same.
\<close>

theorem Service_get_throws_iff_property_falsy:
  "(Service_get heap C name
      = Inl (Error (''Error: Service '' @ [CHR 0x22] @ name @ [CHR 0x22] @ '' does not exist.'')))
     = (\<not> ToBoolean (property heap C name))
   \<and> isl (Service_get heap C name) = (\<not> ToBoolean (property heap C name))
   \<and> (ToBoolean (property heap C name) \<longrightarrow> Service_get heap C name = Inr (property heap C name))
   \<and> (own C name = Some v \<longrightarrow> property heap C name = v)
   \<and> (inherited heap C name = Missing \<longrightarrow>
        isl (Service_get heap C name)
          = (case own C name of None \<Rightarrow> True | Some stored \<Rightarrow> \<not> ToBoolean stored))
   \<and> (\<not> ToBoolean v \<and> (own C name \<noteq> None \<or> inherited heap C name \<noteq> Proto_accessor) \<longrightarrow>
        own (Service_add heap C name v) name = Some v
        \<and> Service_get heap (Service_add heap C name v) name
            = Inl (Error (''Error: Service '' @ [CHR 0x22] @ name @ [CHR 0x22] @ '' does not exist.'')))
   \<and> \<not> ToBoolean (JNumber 0) \<and> \<not> ToBoolean (JString '''')
   \<and> \<not> ToBoolean (JBoolean False) \<and> \<not> ToBoolean JNull"
  by (auto simp: Service_get_def Service_add_def assign_def define_own_def property_def Let_def
      split: option.splits slot.splits)

theorem Service_get_throws_iff_property_falsy_witness:
  "own (Service_add no_members empty_object ''audio'' (JNumber 0)) ''audio'' = Some (JNumber 0)
   \<and> Service_get no_members (Service_add no_members empty_object ''audio'' (JNumber 0)) ''audio''
       = Inl (Error (''Error: Service '' @ [CHR 0x22] @ ''audio'' @ [CHR 0x22] @ '' does not exist.''))
   \<and> Service_get no_members (Service_add no_members empty_object ''assets'' (JObject (Host 7))) ''assets''
       = Inr (JObject (Host 7))
   \<and> Service_get no_members empty_object ''events''
       = Inl (Error (''Error: Service '' @ [CHR 0x22] @ ''events'' @ [CHR 0x22] @ '' does not exist.''))"
  using Service_get_throws_iff_property_falsy [of no_members empty_object "''audio''" "JNumber 0"]
    Service_get_throws_iff_property_falsy
      [of no_members "Service_add no_members empty_object ''assets'' (JObject (Host 7))" "''assets''"
        "JObject (Host 7)"]
    Service_get_throws_iff_property_falsy [of no_members empty_object "''events''" JNull]
  by (simp add: empty_object_def inherited_def slot_of_def object_prototype_slot_def
      object_prototype_functions_def Service_add_def assign_def define_own_def property_def
      no_members_def)

text \<open>
  The claim C10 as stated fails for the names that the container inherits. Nothing is
  stored under \<open>toString\<close> in the empty container, and \<open>Service.get\<close> returns the inherited
  function instead of throwing. \<open>Service.add\<close> of \<open>0\<close> under \<open>__proto__\<close> stores no entry,
  and \<open>Service.get\<close> returns \<open>Object.prototype\<close> instead of throwing.
\<close>

theorem Service_get_inherited_counterexample:
  "own empty_object ''toString'' = None
   \<and> Service_get no_members empty_object ''toString''
       = Inr (JObject (Builtin ''Object.prototype.toString''))
   \<and> own (Service_add no_members empty_object ''__proto__'' (JNumber 0)) ''__proto__'' = None
   \<and> Service_get no_members (Service_add no_members empty_object ''__proto__'' (JNumber 0)) ''__proto__''
       = Inr (JObject (Builtin ''Object.prototype''))"
  by (simp add: Service_get_def Service_add_def assign_def property_def inherited_def slot_of_def
      object_prototype_slot_def object_prototype_functions_def empty_object_def Object_prototype_def
      Let_def)

section \<open>Properties of the callback registry\<close>

lemma indexOf_not_member: "x \<notin> set xs \<Longrightarrow> indexOf xs x = - 1"
  by (induction xs) (auto simp: Let_def)

lemma indexOf_member:
  "x \<in> set xs \<Longrightarrow> indexOf xs x = int (length (takeWhile (\<lambda>y. y \<noteq> x) xs))"
  by (induction xs) (auto simp: Let_def)

lemma indexOf_minus_one: "(indexOf xs x = - 1) = (x \<notin> set xs)"
  using indexOf_not_member [of x xs] indexOf_member [of x xs] by auto

lemma array_splice_one:
  "n < length xs \<Longrightarrow> array_splice xs (int n) (Suc 0) = take n xs @ drop (Suc n) xs"
  by (simp add: array_splice_def Let_def)

lemma take_drop_remove1:
  "x \<in> set xs \<Longrightarrow>
   take (length (takeWhile (\<lambda>y. y \<noteq> x) xs)) xs
     @ drop (Suc (length (takeWhile (\<lambda>y. y \<noteq> x) xs))) xs = remove1 x xs"
  by (induction xs) auto

lemma takeWhile_shorter:
  "x \<in> set xs \<Longrightarrow> length (takeWhile (\<lambda>y. y \<noteq> x) xs) < length xs"
  by (induction xs) auto

lemma removeCallback_callbacks:
  "callbacks (removeCallback k cb g) k = remove1 cb (callbacks g k)"
proof (cases "cb \<in> set (callbacks g k)")
  case True
  let ?n = "length (takeWhile (\<lambda>y. y \<noteq> cb) (callbacks g k))"
  have "?n < length (callbacks g k)"
    using True by (rule takeWhile_shorter)
  then show ?thesis
    using True
    by (simp add: removeCallback_def Let_def indexOf_member array_splice_one take_drop_remove1)
next
  case False
  then show ?thesis
    by (simp add: removeCallback_def Let_def indexOf_not_member remove1_idem)
qed

lemma removeCallback_other: "k' \<noteq> k \<Longrightarrow> callbacks (removeCallback k cb g) k' = callbacks g k'"
  by (simp add: removeCallback_def Let_def)

lemma removeCallback_absent: "cb \<notin> set (callbacks g k) \<Longrightarrow> removeCallback k cb g = g"
  by (simp add: removeCallback_def Let_def indexOf_not_member)



lemma remove1_first_occurrence:
  "x \<in> set xs \<Longrightarrow>
   remove1 x xs = takeWhile (\<lambda>y. y \<noteq> x) xs @ tl (dropWhile (\<lambda>y. y \<noteq> x) xs)"
  by (induction xs) auto

lemma count_list_remove1_same:
  "x \<in> set xs \<Longrightarrow> count_list (remove1 x xs) x + 1 = count_list xs x"
  by (induction xs) auto

lemma count_list_remove1_other: "y \<noteq> x \<Longrightarrow> count_list (remove1 x xs) y = count_list xs y"
  by (induction xs) auto

lemma length_remove1_member: "x \<in> set xs \<Longrightarrow> length (remove1 x xs) + 1 = length xs"
  by (induction xs) auto

lemma removeCallback_fields:
  "lastFrameTime (removeCallback k cb g) = lastFrameTime g \<and> gl (removeCallback k cb g) = gl g"
  by (simp add: removeCallback_def Let_def)

section \<open>Properties of dispatch\<close>

lemma invoke_all_effects:
  "fst (invoke_all behave k args cbs g) = pass_effects behave k args cbs"
  by (induction cbs arbitrary: g) (simp_all add: pass_effects_def Let_def case_prod_beta)

lemma dispatch_effects: "fst (dispatch behave k args g) = pass_effects behave k args (callbacks g k)"
  by (simp add: dispatch_def invoke_all_effects)

lemma invoked_append: "invoked k (es @ es') = invoked k es @ invoked k es'"
  by (induction k es rule: invoked.induct) simp_all

lemma invoked_pass_effects: "invoked k (pass_effects behave k args cbs) = cbs"
  by (induction cbs) (simp_all add: pass_effects_def)

lemma deltas_append: "deltas (es @ es') = deltas es @ deltas es'"
  by (induction es rule: deltas.induct) simp_all


section \<open>The registry: adding, removing and dispatching\<close>

text \<open>
  C7. \<open>removeCallback k cb\<close> removes the first occurrence of \<open>cb\<close>, compared by identity,
  from the sequence of \<open>k\<close>: what stood before it and what stood after it stay in place.
  It removes one occurrence and no more (the length and the count of \<open>cb\<close> go down by
  one, the count of every other callback stays), and it touches no other kind and no
  other field. When \<open>cb\<close> is not in the sequence nothing is raised and the game is left
  as it was.
\<close>

theorem removeCallback_first_occurrence:
  "callbacks (removeCallback k cb g) k = remove1 cb (callbacks g k)
   \<and> (cb \<in> set (callbacks g k) \<longrightarrow>
        callbacks (removeCallback k cb g) k
          = takeWhile (\<lambda>c. c \<noteq> cb) (callbacks g k) @ tl (dropWhile (\<lambda>c. c \<noteq> cb) (callbacks g k))
        \<and> length (callbacks (removeCallback k cb g) k) + 1 = length (callbacks g k)
        \<and> count_list (callbacks (removeCallback k cb g) k) cb + 1 = count_list (callbacks g k) cb)
   \<and> (\<forall>c. c \<noteq> cb \<longrightarrow>
        count_list (callbacks (removeCallback k cb g) k) c = count_list (callbacks g k) c)
   \<and> (\<forall>k'. k' \<noteq> k \<longrightarrow> callbacks (removeCallback k cb g) k' = callbacks g k')
   \<and> (cb \<notin> set (callbacks g k) \<longrightarrow> removeCallback k cb g = g)
   \<and> lastFrameTime (removeCallback k cb g) = lastFrameTime g
   \<and> gl (removeCallback k cb g) = gl g"
proof -
  let ?xs = "callbacks g k"
  have r: "callbacks (removeCallback k cb g) k = remove1 cb ?xs"
    by (rule removeCallback_callbacks)
  have f: "cb \<in> set ?xs \<longrightarrow>
      remove1 cb ?xs = takeWhile (\<lambda>c. c \<noteq> cb) ?xs @ tl (dropWhile (\<lambda>c. c \<noteq> cb) ?xs)"
    by (simp add: remove1_first_occurrence)
  have l: "cb \<in> set ?xs \<longrightarrow> length (remove1 cb ?xs) + 1 = length ?xs"
    using length_remove1_member [of cb ?xs] by simp
  have n: "cb \<in> set ?xs \<longrightarrow> count_list (remove1 cb ?xs) cb + 1 = count_list ?xs cb"
    using count_list_remove1_same [of cb ?xs] by simp
  have m: "\<forall>c. c \<noteq> cb \<longrightarrow> count_list (remove1 cb ?xs) c = count_list ?xs c"
    by (simp add: count_list_remove1_other)
  have o: "\<forall>k'. k' \<noteq> k \<longrightarrow> callbacks (removeCallback k cb g) k' = callbacks g k'"
    by (simp add: removeCallback_other)
  have a: "cb \<notin> set ?xs \<longrightarrow> removeCallback k cb g = g"
    by (simp add: removeCallback_absent)
  show ?thesis
    unfolding r using f l n m o a removeCallback_fields [of k cb g] by blast
qed

theorem removeCallback_first_occurrence_witness:
  "callbacks (removeCallback Update 1 (blank_game\<lparr>callbacks := (\<lambda>k. [1, 2, 1, 3])\<rparr>)) Update = [2, 1, 3]
   \<and> removeCallback Draw 9 (blank_game\<lparr>callbacks := (\<lambda>k. [1, 2, 1, 3])\<rparr>)
       = blank_game\<lparr>callbacks := (\<lambda>k. [1, 2, 1, 3])\<rparr>"
  using removeCallback_first_occurrence [of Update 1 "blank_game\<lparr>callbacks := (\<lambda>k. [1, 2, 1, 3])\<rparr>"]
    removeCallback_first_occurrence [of Draw 9 "blank_game\<lparr>callbacks := (\<lambda>k. [1, 2, 1, 3])\<rparr>"]
  by simp

lemma addCallback_callbacks: "callbacks (addCallback k cb g) k = callbacks g k @ [cb]"
  by (simp add: addCallback_def)

lemma addCallback_other: "k' \<noteq> k \<Longrightarrow> callbacks (addCallback k cb g) k' = callbacks g k'"
  by (simp add: addCallback_def)

lemma remove1_append_last:
  "remove1 x (xs @ [x]) = (if x \<in> set xs then remove1 x xs @ [x] else xs)"
  by (induction xs) auto

lemma removeCallback_addCallback_absent:
  "cb \<notin> set (callbacks g k) \<Longrightarrow> removeCallback k cb (addCallback k cb g) = g"
  by (simp add: removeCallback_def addCallback_def Let_def indexOf_member array_splice_def
      takeWhile_append)

lemma count_list_append: "count_list (xs @ ys) x = count_list xs x + count_list ys x"
  by (induction xs) auto

text \<open>
  C2, as the code has it. \<open>addCallback k cb\<close> followed by \<open>removeCallback k cb\<close> removes
  the first occurrence of \<open>cb\<close>, which is an earlier one when the sequence already held
  \<open>cb\<close>. So the next dispatch of \<open>k\<close> invokes \<open>cb\<close> exactly when \<open>cb\<close> was subscribed
  before the add, and as many times as it was subscribed then. When \<open>cb\<close> was not
  subscribed before, the two calls leave the game as it was and \<open>cb\<close> is not invoked.
\<close>

theorem remove_after_add:
  "callbacks (removeCallback k cb (addCallback k cb g)) k
     = (if cb \<in> set (callbacks g k) then remove1 cb (callbacks g k) @ [cb] else callbacks g k)
   \<and> (cb \<in> set (invoked k (fst (dispatch behave k args (removeCallback k cb (addCallback k cb g))))))
       = (cb \<in> set (callbacks g k))
   \<and> count_list (invoked k (fst (dispatch behave k args (removeCallback k cb (addCallback k cb g))))) cb
       = count_list (callbacks g k) cb
   \<and> (cb \<notin> set (callbacks g k) \<longrightarrow> removeCallback k cb (addCallback k cb g) = g)"
proof -
  let ?g = "removeCallback k cb (addCallback k cb g)"
  have c: "callbacks ?g k
     = (if cb \<in> set (callbacks g k) then remove1 cb (callbacks g k) @ [cb] else callbacks g k)"
    by (simp add: removeCallback_callbacks addCallback_callbacks remove1_append_last)
  have i: "invoked k (fst (dispatch behave k args ?g)) = callbacks ?g k"
    by (simp add: dispatch_effects invoked_pass_effects)
  have n: "count_list (callbacks ?g k) cb = count_list (callbacks g k) cb"
    using count_list_remove1_same [of cb "callbacks g k"]
    by (simp add: c count_list_append)
  show ?thesis
    using c n by (simp add: i removeCallback_addCallback_absent)
qed

theorem remove_after_add_witness:
  "removeCallback Draw 5 (addCallback Draw 5 blank_game) = blank_game
   \<and> invoked Draw (fst (dispatch quiet Draw [] (removeCallback Draw 5 (addCallback Draw 5 blank_game)))) = []"
  using remove_after_add [of Draw 5 blank_game quiet "[]"]
  by (simp add: blank_game_def dispatch_def)

text \<open>
  The claim C2 as stated fails for a sequence that held \<open>cb\<close> before the add: from the
  sequence \<open>[1]\<close> of \<open>update\<close>, adding \<open>1\<close> and removing \<open>1\<close> leaves \<open>[1]\<close>, and the next
  dispatch invokes \<open>1\<close>.
\<close>

theorem remove_after_add_counterexample:
  "invoked Update (fst (dispatch quiet Update [0]
      (removeCallback Update 1 (addCallback Update 1 (addCallback Update 1 blank_game))))) = [1]"
  by (simp add: dispatch_def removeCallback_def addCallback_def blank_game_def quiet_def
      array_splice_def Let_def)

text \<open>
  C9. Adding the same callback twice appends it twice, after the subscribers already
  there and to no other kind. The next dispatch of the kind invokes the earlier
  subscribers and then the callback once for each of the two occurrences, so two times
  more than before the adds, and exactly twice when it was not subscribed before.
\<close>

theorem addCallback_twice:
  "callbacks (addCallback k cb (addCallback k cb g)) k = callbacks g k @ [cb, cb]
   \<and> (\<forall>k'. k' \<noteq> k \<longrightarrow> callbacks (addCallback k cb (addCallback k cb g)) k' = callbacks g k')
   \<and> fst (dispatch behave k args (addCallback k cb (addCallback k cb g)))
       = pass_effects behave k args (callbacks g k) @ pass_effects behave k args [cb, cb]
   \<and> invoked k (fst (dispatch behave k args (addCallback k cb (addCallback k cb g))))
       = callbacks g k @ [cb, cb]
   \<and> count_list (invoked k (fst (dispatch behave k args (addCallback k cb (addCallback k cb g))))) cb
       = count_list (callbacks g k) cb + 2
   \<and> (cb \<notin> set (callbacks g k) \<longrightarrow>
        count_list (invoked k (fst (dispatch behave k args (addCallback k cb (addCallback k cb g))))) cb = 2)"
proof -
  let ?g = "addCallback k cb (addCallback k cb g)"
  have c: "callbacks ?g k = callbacks g k @ [cb, cb]"
    by (simp add: addCallback_callbacks)
  have e: "fst (dispatch behave k args ?g)
      = pass_effects behave k args (callbacks g k) @ pass_effects behave k args [cb, cb]"
    by (simp add: dispatch_effects c pass_effects_def)
  have i: "invoked k (fst (dispatch behave k args ?g)) = callbacks g k @ [cb, cb]"
    by (simp add: dispatch_effects c invoked_pass_effects)
  have n: "count_list (callbacks g k @ [cb, cb]) cb = count_list (callbacks g k) cb + 2"
    by (simp add: count_list_append)
  have z: "cb \<notin> set (callbacks g k) \<longrightarrow> count_list (callbacks g k @ [cb, cb]) cb = 2"
    by (simp add: count_list_append)
  have o: "\<forall>k'. k' \<noteq> k \<longrightarrow> callbacks ?g k' = callbacks g k'"
    by (simp add: addCallback_other)
  show ?thesis
    unfolding i using c e n z o by blast
qed

theorem addCallback_twice_witness:
  "invoked Update (fst (dispatch quiet Update [1 / 60] (addCallback Update 4 (addCallback Update 4 blank_game))))
     = [4, 4]
   \<and> count_list (invoked Update (fst (dispatch quiet Update [1 / 60]
        (addCallback Update 4 (addCallback Update 4 blank_game))))) 4 = 2"
  using addCallback_twice [of Update 4 blank_game quiet "[1 / 60]"]
  by (simp add: blank_game_def invoked_append invoked_pass_effects)



section \<open>The loop and the constructor\<close>

lemma initial_callbacks_empty: "initial_callbacks = (\<lambda>k. [])"
  by (rule ext) (simp add: initial_callbacks_def)

lemma loop_unfold:
  "loop (g, h) =
     ([Call_update ((clock h (reads h) - lastFrameTime g) / 1000), Call_draw,
       ClearColor 0 0 0 1, Clear],
      (g\<lparr>lastFrameTime := clock h (reads h)\<rparr>,
       requestAnimationFrame LoopFrame (h\<lparr>reads := Suc (reads h)\<rparr>)))"
  by (simp add: loop_def performance_now_def update_def draw_def Let_def)

lemma frame_callback_StartFrame:
  "frame_callback StartFrame (g, h) =
     ([Call_update ((clock h (Suc (reads h)) - clock h (reads h)) / 1000), Call_draw,
       ClearColor 0 0 0 1, Clear],
      (g\<lparr>lastFrameTime := clock h (Suc (reads h))\<rparr>,
       requestAnimationFrame LoopFrame (h\<lparr>reads := Suc (Suc (reads h))\<rparr>)))"
  by (simp add: performance_now_def loop_unfold)



lemma frame_callback_deltas: "length (deltas (fst (frame_callback f s))) = 1"
  by (cases f; cases s) (simp_all add: frame_callback_StartFrame loop_unfold del: frame_callback.simps(1))

lemma frame_callback_frames:
  "frames (snd (snd (frame_callback f (g, h)))) = frames h @ [LoopFrame]"
  by (cases f)
    (simp_all add: frame_callback_StartFrame loop_unfold requestAnimationFrame_def
      del: frame_callback.simps(1))



lemma run_callbacks_frames:
  "frames (snd (snd (run_callbacks fs (g, h)))) = frames h @ replicate (length fs) LoopFrame"
proof (induction fs arbitrary: g h)
  case Nil
  then show ?case by simp
next
  case (Cons f fs)
  obtain es g1 h1 where f: "frame_callback f (g, h) = (es, (g1, h1))"
    by (cases "frame_callback f (g, h)") auto
  then have "frames h1 = frames h @ [LoopFrame]"
    using frame_callback_frames [of f g h] by simp
  then show ?case
    using f Cons.IH [of g1 h1] by (simp add: case_prod_beta replicate_app_Cons_same)
qed

lemma run_callbacks_deltas: "length (deltas (fst (run_callbacks fs s))) = length fs"
  by (induction fs arbitrary: s) (simp_all add: case_prod_beta deltas_append frame_callback_deltas)



lemma animation_frame_frames:
  "frames (snd (snd (animation_frame (g, h)))) = replicate (length (frames h)) LoopFrame"
  by (simp add: animation_frame_def run_callbacks_frames)

lemma animation_frame_deltas:
  "length (deltas (fst (animation_frame (g, h)))) = length (frames h)"
  by (simp add: animation_frame_def run_callbacks_deltas)



lemma run_frames_frames:
  "css \<noteq> [] \<Longrightarrow>
   frames (snd (snd (run_frames css (g, h)))) = replicate (length (frames h)) LoopFrame"
proof (induction css arbitrary: g h)
  case Nil
  then show ?case by simp
next
  case (Cons cs css)
  obtain es g1 h1 where a: "animation_frame (fold perform cs g, h) = (es, (g1, h1))"
    by (cases "animation_frame (fold perform cs g, h)") auto
  then have h1: "frames h1 = replicate (length (frames h)) LoopFrame"
    using animation_frame_frames [of "fold perform cs g" h] by simp
  show ?case
  proof (cases "css = []")
    case True
    then show ?thesis using a h1 by simp
  next
    case False
    then show ?thesis
      using a h1 Cons.IH [of g1 h1] by (simp add: case_prod_beta)
  qed
qed

lemma run_frames_deltas:
  "length (deltas (fst (run_frames css (g, h)))) = length css * length (frames h)"
proof (induction css arbitrary: g h)
  case Nil
  then show ?case by simp
next
  case (Cons cs css)
  obtain es g1 h1 where a: "animation_frame (fold perform cs g, h) = (es, (g1, h1))"
    by (cases "animation_frame (fold perform cs g, h)") auto
  then have "frames h1 = replicate (length (frames h)) LoopFrame"
    and "length (deltas es) = length (frames h)"
    using animation_frame_frames [of "fold perform cs g" h]
      animation_frame_deltas [of "fold perform cs g" h]
    by simp_all
  then show ?case
    using a Cons.IH [of g1 h1] by (simp add: case_prod_beta deltas_append)
qed

text \<open>
  C1, as the code has it. The delta time that a run of \<open>loop\<close> passes to \<open>update\<close> is the
  clock reading of this run minus the last recorded reading, divided by 1000. Nothing
  clamps it: it is at least 0 exactly when the new reading does not precede the last
  recorded one. The run records its reading, so the delta of the next run is the
  difference of two consecutive readings. No delta reaches a subscriber of \<open>update\<close>,
  since the run invokes none.
\<close>

theorem loop_delta_time:
  "deltas (fst (loop (g, h))) = [(clock h (reads h) - lastFrameTime g) / 1000]
   \<and> (0 \<le> (clock h (reads h) - lastFrameTime g) / 1000) = (lastFrameTime g \<le> clock h (reads h))
   \<and> lastFrameTime (fst (snd (loop (g, h)))) = clock h (reads h)
   \<and> deltas (fst (loop (snd (loop (g, h)))))
       = [(clock h (Suc (reads h)) - clock h (reads h)) / 1000]
   \<and> invoked Update (fst (loop (g, h))) = []"
  by (simp add: loop_unfold requestAnimationFrame_def)

theorem loop_delta_time_witness:
  "deltas (fst (loop (addCallback Update 1 (blank_game\<lparr>lastFrameTime := 1000\<rparr>), page (\<lambda>n. 1016))))
     = [2 / 125]
   \<and> lastFrameTime (fst (snd (loop (addCallback Update 1 (blank_game\<lparr>lastFrameTime := 1000\<rparr>),
        page (\<lambda>n. 1016))))) = 1016"
  using loop_delta_time [of "addCallback Update 1 (blank_game\<lparr>lastFrameTime := 1000\<rparr>)"
      "page (\<lambda>n. 1016)"]
  by (simp add: page_def blank_game_def addCallback_def)

text \<open>
  The claim C1 as stated fails when the clock goes back. A game is constructed on a page
  whose clock reads 1000, 1000 and then 0. The second tick passes the delta \<open>-1\<close> to
  \<open>update\<close>.
\<close>

theorem loop_delta_time_counterexample:
  "constructor (page (\<lambda>n. if n < 2 then 1000 else 0))
     = (Inr blank_game, requestAnimationFrame StartFrame (page (\<lambda>n. if n < 2 then 1000 else 0)))
   \<and> fst (run_frames [[], []]
        (blank_game, requestAnimationFrame StartFrame (page (\<lambda>n. if n < 2 then 1000 else 0))))
     = [Call_update 0, Call_draw, ClearColor 0 0 0 1, Clear,
        Call_update (- 1), Call_draw, ClearColor 0 0 0 1, Clear]"
  by (simp add: constructor_def initial_callbacks_empty page_def getGLContext_def getContext_def
      blank_game_def requestAnimationFrame_def animation_frame_def performance_now_def
      loop_unfold case_prod_beta)




text \<open>
  C4, as the code has it. The class has no \<open>stop\<close> and \<open>loop\<close> tests no flag: every run
  of \<open>loop\<close> ends by registering \<open>loop\<close> for the next frame, whatever the host code calls
  on the game. From a state with one pending frame callback, each animation frame of a
  run is a tick (one call of \<open>update\<close> each), and one callback of \<open>loop\<close> is pending after
  them.
\<close>

theorem loop_always_schedules_next:
  "frames (snd (snd (loop (g, h)))) = frames h @ [LoopFrame]
   \<and> (css \<noteq> [] \<longrightarrow>
        frames (snd (snd (run_frames css (g, h)))) = replicate (length (frames h)) LoopFrame)
   \<and> length (deltas (fst (run_frames css (g, h)))) = length css * length (frames h)"
  by (simp add: loop_unfold requestAnimationFrame_def run_frames_frames run_frames_deltas)

theorem loop_always_schedules_next_witness:
  "frames (snd (snd (run_frames [[], [AddCallback Draw 2], [RemoveCallback Draw 2]]
      (blank_game, requestAnimationFrame StartFrame (page (\<lambda>n. 16 * real n))))))
     = [LoopFrame]
   \<and> length (deltas (fst (run_frames [[], [AddCallback Draw 2], [RemoveCallback Draw 2]]
      (blank_game, requestAnimationFrame StartFrame (page (\<lambda>n. 16 * real n))))))
     = 3"
  using loop_always_schedules_next [of blank_game
      "requestAnimationFrame StartFrame (page (\<lambda>n. 16 * real n))"
      "[[], [AddCallback Draw 2], [RemoveCallback Draw 2]]"]
  by (simp add: page_def requestAnimationFrame_def)

text \<open>
  The claim C4 as stated fails: there is nothing the host code can call on a started
  game, before its first tick or between its first and its second, that leaves the
  scheduler without the loop after the first tick or keeps the second tick from
  happening.
\<close>

theorem stop_counterexample:
  "\<not> (\<exists>cs cs' :: nat call list.
        frames (snd (snd (run_frames [cs]
          (blank_game, requestAnimationFrame StartFrame (page (\<lambda>n. 16 * real n))))))
          = []
        \<or> length (deltas (fst (run_frames [cs, cs']
          (blank_game, requestAnimationFrame StartFrame (page (\<lambda>n. 16 * real n)))))) < 2)"
proof -
  let ?h = "requestAnimationFrame StartFrame (page (\<lambda>n. 16 * real n))"
  have one: "length (frames ?h) = 1"
    by (simp add: page_def requestAnimationFrame_def)
  have "frames (snd (snd (run_frames [cs] (blank_game, ?h)))) = [LoopFrame]" for cs :: "nat call list"
    using run_frames_frames [of "[cs]" blank_game ?h] by (simp add: one)
  moreover have "length (deltas (fst (run_frames [cs, cs'] (blank_game, ?h)))) = 2"
    for cs cs' :: "nat call list"
    using run_frames_deltas [of "[cs, cs']" blank_game ?h] by (simp add: one)
  ultimately show ?thesis by simp
qed

lemma getGLContext_Inr:
  "(getGLContext c = Inr ctx) = (webgl2 c = Some ctx \<or> webgl2 c = None \<and> webgl c = Some ctx)"
  by (auto simp: getGLContext_def getContext_def split: option.splits)

lemma constructor_throws:
  "document h ''lunasCanvas'' = None \<Longrightarrow> constructor h = (Inl (Error canvas_not_found), h)"
  by (simp add: constructor_def)

lemma constructor_returns:
  "document h ''lunasCanvas'' = Some c \<Longrightarrow> getGLContext c = Inr ctx \<Longrightarrow>
   constructor h
     = (Inr \<lparr>lastFrameTime = 0, gl = ctx, callbacks = (\<lambda>k. [])\<rparr>, h\<lparr>frames := frames h @ [StartFrame]\<rparr>)"
  by (simp add: constructor_def requestAnimationFrame_def initial_callbacks_empty)

text \<open>
  C5. The game is started by its constructor. When the document has no element with the
  id \<open>lunasCanvas\<close>, the constructor throws \<^verbatim>\<open>Canvas element with id "lunasCanvas" not found\<close>
  to its caller, and nothing has changed: no game exists, no frame callback is registered
  and the clock has not been read. When a canvas that gives a rendering context is then
  put into the document, the constructor returns a game and has registered the first
  frame callback.
\<close>

theorem constructor_canvas_not_found:
  "(document h ''lunasCanvas'' = None \<longrightarrow>
      (constructor h :: (error + 'cb Game) \<times> host) = (Inl (Error canvas_not_found), h))
   \<and> (getGLContext c = Inr ctx \<longrightarrow>
        (constructor (h\<lparr>document := (document h)(''lunasCanvas'' \<mapsto> c)\<rparr>) :: (error + 'cb Game) \<times> host)
          = (Inr \<lparr>lastFrameTime = 0, gl = ctx, callbacks = (\<lambda>k. [])\<rparr>,
             h\<lparr>document := (document h)(''lunasCanvas'' \<mapsto> c), frames := frames h @ [StartFrame]\<rparr>))
   \<and> (getGLContext c = Inr ctx) = (webgl2 c = Some ctx \<or> webgl2 c = None \<and> webgl c = Some ctx)"
proof -
  have "(constructor (h\<lparr>document := (document h)(''lunasCanvas'' \<mapsto> c)\<rparr>) :: (error + 'cb Game) \<times> host)
          = (Inr \<lparr>lastFrameTime = 0, gl = ctx, callbacks = (\<lambda>k. [])\<rparr>,
             h\<lparr>document := (document h)(''lunasCanvas'' \<mapsto> c), frames := frames h @ [StartFrame]\<rparr>)"
    if "getGLContext c = Inr ctx"
    using that constructor_returns [of "h\<lparr>document := (document h)(''lunasCanvas'' \<mapsto> c)\<rparr>" c ctx]
    by simp
  then show ?thesis
    using getGLContext_Inr [of c ctx] by (simp add: constructor_throws)
qed

theorem constructor_canvas_not_found_witness:
  "(constructor bare_page :: (error + nat Game) \<times> host)
     = (Inl (Error (''Canvas element with id '' @ [CHR 0x22] @ ''lunasCanvas'' @ [CHR 0x22] @ '' not found'')),
        bare_page)
   \<and> (constructor (bare_page\<lparr>document := [''lunasCanvas'' \<mapsto> \<lparr>webgl2 = None, webgl = Some 2\<rparr>]\<rparr>)
        :: (error + nat Game) \<times> host)
     = (Inr \<lparr>lastFrameTime = 0, gl = 2, callbacks = (\<lambda>k. [])\<rparr>,
        bare_page\<lparr>document := [''lunasCanvas'' \<mapsto> \<lparr>webgl2 = None, webgl = Some 2\<rparr>],
                  frames := [StartFrame]\<rparr>)"
  using constructor_canvas_not_found [of bare_page "\<lparr>webgl2 = None, webgl = Some 2\<rparr>" 2,
      where ?'cb = nat]
  by (simp add: bare_page_def canvas_not_found_def)

lemma constructor_Inr:
  "constructor h = (Inr g, h') \<Longrightarrow>
   lastFrameTime g = 0 \<and> reads h' = reads h \<and> clock h' = clock h \<and> frames h' = frames h @ [StartFrame]"
  by (auto simp: constructor_def requestAnimationFrame_def split: option.splits sum.splits)

text \<open>
  C8, as the code has it. The constructor leaves \<open>lastFrameTime\<close> at \<open>0\<close> and does not read
  the clock. The first frame callback reads the clock into \<open>lastFrameTime\<close>, and \<open>loop\<close>
  then reads the clock again: the delta time of the first tick is the difference of
  these two readings divided by 1000, whatever \<open>lastFrameTime\<close> was. It is zero exactly
  when the two readings are equal.
\<close>

theorem first_frame_delta:
  "(constructor h = (Inr g, h') \<longrightarrow>
      lastFrameTime g = 0 \<and> reads h' = reads h \<and> clock h' = clock h
      \<and> frames h' = frames h @ [StartFrame])
   \<and> deltas (fst (frame_callback StartFrame (g, h)))
       = [(clock h (Suc (reads h)) - clock h (reads h)) / 1000]
   \<and> lastFrameTime (fst (snd (frame_callback StartFrame (g, h)))) = clock h (Suc (reads h))
   \<and> (frames h = [StartFrame] \<longrightarrow>
        deltas (fst (animation_frame (g, h)))
          = [(clock h (Suc (reads h)) - clock h (reads h)) / 1000])
   \<and> ((clock h (Suc (reads h)) - clock h (reads h)) / 1000 = 0)
       = (clock h (Suc (reads h)) = clock h (reads h))"
proof -
  have "deltas (fst (animation_frame (g, h)))
          = [(clock h (Suc (reads h)) - clock h (reads h)) / 1000]"
    if "frames h = [StartFrame]"
    using that
    by (simp add: animation_frame_def case_prod_beta frame_callback_StartFrame
        del: frame_callback.simps)
  then show ?thesis
    using constructor_Inr [of h g h']
    by (simp add: frame_callback_StartFrame del: frame_callback.simps)
qed

theorem first_frame_delta_witness:
  "deltas (fst (animation_frame (blank_game, requestAnimationFrame StartFrame (page (\<lambda>n. 1000)))))
     = [0]
   \<and> lastFrameTime blank_game = 0"
  using first_frame_delta [of "page (\<lambda>n. 1000)" blank_game
      "requestAnimationFrame StartFrame (page (\<lambda>n. 1000))"]
    first_frame_delta [of "requestAnimationFrame StartFrame (page (\<lambda>n. 1000))" blank_game
      "requestAnimationFrame StartFrame (page (\<lambda>n. 1000))"]
  by (simp add: page_def requestAnimationFrame_def blank_game_def)

text \<open>
  The claim C8 as stated fails when the clock moves between the two readings of the first
  frame: on a page whose clock reads 1000 and then 1001, the first tick passes the delta
  \<open>1 / 1000\<close> to \<open>update\<close>.
\<close>

theorem first_frame_delta_counterexample:
  "constructor (page (\<lambda>n. 1000 + real n))
     = (Inr blank_game, requestAnimationFrame StartFrame (page (\<lambda>n. 1000 + real n)))
   \<and> fst (animation_frame
        (blank_game, requestAnimationFrame StartFrame (page (\<lambda>n. 1000 + real n))))
     = [Call_update (1 / 1000), Call_draw, ClearColor 0 0 0 1, Clear]"
  by (simp add: constructor_def initial_callbacks_empty page_def getGLContext_def getContext_def
      blank_game_def requestAnimationFrame_def animation_frame_def performance_now_def
      loop_unfold case_prod_beta)

end
